theory Spec2Isabelle
  imports Main "HOL-Library.Word"
begin

section \<open>Data model\<close>

text \<open>
  The embedding follows \<^verbatim>\<open>node/consensus/data/message_handler.go\<close>,
  \<^verbatim>\<open>node/consensus/data/broadcast_messaging.go\<close> and
  \<^verbatim>\<open>node/internal/autononce/autononce.go\<close>.

  A Go byte slice is a list of bytes; where the code tests a slice against \<^verbatim>\<open>nil\<close>
  the field is an \<open>option\<close> (\<open>None\<close> is \<^verbatim>\<open>nil\<close>). A Go \<^verbatim>\<open>error\<close> is the text
  of its message, and an \<^verbatim>\<open>error\<close> result is an \<open>error option\<close> (\<open>None\<close> is
  \<^verbatim>\<open>nil\<close>). A pointer to a sub-message that may be absent is an \<open>option\<close>, and
  reading a field through an absent one is a panic.
\<close>

type_synonym byte = "8 word"
type_synonym bytes = "byte list"
type_synonym error = string

text \<open>\<^verbatim>\<open>errors.Wrap(err, msg)\<close> of pkg/errors: the message is prefixed.\<close>

definition Wrap :: "error \<Rightarrow> string \<Rightarrow> error" where
  "Wrap err msg = msg @ '': '' @ err"

text \<open>What a call of the engine does: it panics, or it returns a value.\<close>

datatype 'a exec = Panic string | Done 'a

definition nil_dereference :: string where
  "nil_dereference = ''invalid memory address or nil pointer dereference''"

record Ed448PublicKey =
  KeyValue :: bytes

record Ed448Signature =
  PublicKey :: "Ed448PublicKey option"
  Signature :: bytes

record ClockFrame =
  Filter :: bytes
  FrameNumber :: "64 word"
  AggregateProofs :: "bytes list"
  PublicKeySignatureEd448 :: "Ed448Signature option"

record CoinRef =
  Address :: bytes

record TransferCoinRequest =
  transfer_OfCoin :: "CoinRef option"

record SplitCoinRequest =
  split_OfCoin :: "CoinRef option"

record MergeCoinRequest =
  Coins :: "CoinRef list"

record MintCoinRequest =
  Proofs :: "bytes list"

record AnnounceProverRequest =
  PublicKeySignaturesEd448 :: "Ed448Signature list"

record AnnounceProverJoin =
  join_PublicKeySignatureEd448 :: "Ed448Signature option"

record AnnounceProverLeave =
  leave_PublicKeySignatureEd448 :: "Ed448Signature option"

record AnnounceProverPause =
  pause_PublicKeySignatureEd448 :: "Ed448Signature option"

record AnnounceProverResume =
  resume_PublicKeySignatureEd448 :: "Ed448Signature option"

text \<open>
  The \<^verbatim>\<open>oneof\<close> of a token request. \<open>NoRequest\<close> is the unset \<^verbatim>\<open>oneof\<close>; the
  message inside a set one is never \<^verbatim>\<open>nil\<close> (\<^verbatim>\<open>proto.Unmarshal\<close> allocates it).
\<close>

datatype isTokenRequest_Request =
    NoRequest
  | TokenRequest_Transfer TransferCoinRequest
  | TokenRequest_Split SplitCoinRequest
  | TokenRequest_Merge MergeCoinRequest
  | TokenRequest_Mint MintCoinRequest
  | TokenRequest_Announce AnnounceProverRequest
  | TokenRequest_Join AnnounceProverJoin
  | TokenRequest_Leave AnnounceProverLeave
  | TokenRequest_Pause AnnounceProverPause
  | TokenRequest_Resume AnnounceProverResume

record TokenRequest =
  Request :: isTokenRequest_Request
  Nonce :: "bytes option"

record DataPeer =
  PeerId :: bytes
  Multiaddr :: string
  MaxFrame :: "64 word"
  Timestamp :: "64 word"
  Version :: "bytes option"
  dp_Signature :: "bytes option"
  dp_PublicKey :: "bytes option"
  TotalDistance :: bytes

record DataPeerListAnnounce =
  PeerList :: "DataPeer list"
  Peer :: "DataPeer option"

record peerInfo =
  peerId :: bytes
  multiaddr :: string
  maxFrame :: "64 word"
  timestamp :: "64 word"
  lastSeen :: "64 word"
  version :: "bytes option"
  signature :: "bytes option"
  publicKey :: "bytes option"
  direct :: bool
  totalDistance :: bytes

text \<open>The inner signed message \<^verbatim>\<open>protobufs.Message\<close> and \<^verbatim>\<open>anypb.Any\<close>.\<close>

record Message =
  Hash :: bytes
  msg_Address :: bytes
  Payload :: bytes

record Any =
  TypeUrl :: string
  Value :: bytes


datatype SyncStatus = SyncStatusNotSyncing | SyncStatusAwaitingResponse | SyncStatusSynchronizing

text \<open>
  A \<^verbatim>\<open>proto.Message\<close> interface value. A \<^verbatim>\<open>*protobufs.TokenRequest\<close> is an address in
  the heap of token requests, because \<^verbatim>\<open>autononce\<close> writes through such a pointer;
  the other messages are only read and are held by value.
\<close>

datatype proto_Message =
    TokenRequestPtr nat
  | ClockFramePtr ClockFrame
  | DataPeerListAnnouncePtr DataPeerListAnnounce

text \<open>
  The calls the engine makes on its collaborators that act on them or that a property
  speaks about, in the order they are made: the frame prover, the time reel, the
  execution engines, and the two acting calls of the pubsub.
\<close>

datatype call =
    CallVerifyDataClockFrame ClockFrame
  | CallHead
  | CallInsert ClockFrame bool
  | CallGetTotalDistance
  | CallSetPeerScore bytes int
  | CallPublishToBitmask bytes bytes
  | CallProcessMessage string bytes Message

datatype level = Debug | Warn | Error

text \<open>
  Modelled from the spec: the prover trie, whose type is declared outside the files
  at hand, is "an opaque ordered set of prover addresses exposing \<open>contains\<close>"; it is
  the set of its addresses and \<^verbatim>\<open>Contains\<close> is membership.
\<close>

type_synonym trie = "bytes set"

text \<open>
  The fields of \<^verbatim>\<open>DataClockConsensusEngine\<close> that the three files use, the calls made
  so far, the log lines written so far, the bytes \<^verbatim>\<open>crypto/rand\<close> delivers next and
  the heap of token requests.
\<close>

record engine =
  peerMap :: "bytes \<rightharpoonup> peerInfo"
  uncooperativePeersMap :: "bytes \<rightharpoonup> peerInfo"
  stagedTransactions :: "TokenRequest list option"
  frameProverTries :: "trie list"
  provingKeyAddress :: bytes
  syncingStatus :: SyncStatus
  executionEngines :: "string list"
  infoFilter :: bytes
  frameFilter :: bytes
  calls :: "call list"
  logs :: "(level \<times> string) list"
  entropy :: bytes
  heap :: "TokenRequest list"

text \<open>
  What the collaborators, the libraries and the configuration answer. Their code is
  outside the files at hand, so each is a parameter: the pubsub, the frame prover, the
  time reel, the execution engines, Poseidon (\<^verbatim>\<open>poseidon.HashBytes\<close> followed by
  \<^verbatim>\<open>Bytes()\<close>), the Ed448 key functions of libp2p (a parsed key is its bytes), the
  \<^verbatim>\<open>config\<close> package, the clock, and protobuf's marshalling with the full names of
  the three message types. The clock is read once for each handler call.
\<close>

record env =
  pubSub_GetPeerID :: bytes
  pubSub_GetMultiaddrOfPeer :: "bytes \<Rightarrow> string"
  pubSub_PublishToBitmask :: "bytes \<Rightarrow> bytes \<Rightarrow> error option"
  frameProver_VerifyDataClockFrame :: "ClockFrame \<Rightarrow> error option"
  dataTimeReel_Head :: "error + ClockFrame"
  dataTimeReel_GetTotalDistance :: nat
  engine_ProcessMessage :: "string \<Rightarrow> bytes \<Rightarrow> Message \<Rightarrow> error + Message list"
  poseidon_HashBytes :: "bytes \<Rightarrow> error + bytes"
  pcrypto_UnmarshalEd448PublicKey :: "bytes \<Rightarrow> error + bytes"
  peer_MatchesPublicKey :: "bytes \<Rightarrow> bytes \<Rightarrow> bool"
  key_Verify :: "bytes \<Rightarrow> bytes \<Rightarrow> bytes \<Rightarrow> bool \<times> error option"
  config_GetMinimumVersion :: bytes
  config_GetMinimumVersionCutoff_UnixMilli :: "64 word"
  config_GetVersion :: bytes
  time_Now_Unix :: "64 word"
  time_Now_UnixMilli :: "64 word"
  application_TOKEN_ADDRESS :: bytes
  protobufs_TokenRequestType :: string
  FullName_TokenRequest :: string
  FullName_ClockFrame :: string
  FullName_DataPeerListAnnounce :: string
  proto_Marshal_TokenRequest :: "TokenRequest \<Rightarrow> error + bytes"
  proto_Marshal_ClockFrame :: "ClockFrame \<Rightarrow> error + bytes"
  proto_Marshal_DataPeerListAnnounce :: "DataPeerListAnnounce \<Rightarrow> error + bytes"
  proto_Marshal_Any :: "Any \<Rightarrow> error + bytes"
  proto_Marshal_Message :: "Message \<Rightarrow> error + bytes"
  proto_Unmarshal_Message :: "bytes \<Rightarrow> error + Message"
  proto_Unmarshal_Any :: "bytes \<Rightarrow> error + Any"
  proto_Unmarshal_TokenRequest :: "bytes \<Rightarrow> error + TokenRequest"
  any_UnmarshalTo_ClockFrame :: "Any \<Rightarrow> error + ClockFrame"
  any_UnmarshalTo_DataPeerListAnnounce :: "Any \<Rightarrow> error + DataPeerListAnnounce"

definition logger :: "level \<Rightarrow> string \<Rightarrow> engine \<Rightarrow> engine" where
  "logger l m s = s\<lparr>logs := logs s @ [(l, m)]\<rparr>"

definition called :: "call \<Rightarrow> engine \<Rightarrow> engine" where
  "called c s = s\<lparr>calls := calls s @ [c]\<rparr>"

section \<open>Frame admission\<close>

text \<open>
  \<^verbatim>\<open>handleClockFrame\<close>, message_handler.go lines 164 to 221. The frame numbers are
  \<^verbatim>\<open>uint64\<close> and are compared unsigned.
\<close>

definition handleClockFrame ::
  "env \<Rightarrow> bytes \<Rightarrow> bytes \<Rightarrow> ClockFrame option \<Rightarrow> engine \<Rightarrow> (error option \<times> engine) exec" where
  "handleClockFrame env peerID address frame s =
     (case frame of
        None \<Rightarrow> Done (Some (Wrap ''frame is nil'' ''handle clock frame''), s)
      | Some f \<Rightarrow>
         (case PublicKeySignatureEd448 f of
            None \<Rightarrow> Panic nil_dereference
          | Some sg \<Rightarrow>
             (case PublicKey sg of
                None \<Rightarrow> Panic nil_dereference
              | Some pk \<Rightarrow>
                 (case poseidon_HashBytes env (KeyValue pk) of
                    Inl err \<Rightarrow> Done (Some (Wrap err ''handle clock frame data''), s)
                  | Inr addr \<Rightarrow>
                     (case frameProverTries s of
                        [] \<Rightarrow> Panic ''index out of range [0] with length 0''
                      | trie # _ \<Rightarrow>
                         if addr \<notin> trie then
                           Done (None,
                             logger Debug ''prover not in trie at frame, address may be in fork'' s)
                         else
                           let s1 = logger Debug ''got clock frame'' s;
                               s2 = called (CallVerifyDataClockFrame f) s1
                           in (case frameProver_VerifyDataClockFrame env f of
                                 Some err \<Rightarrow>
                                   Done (Some (Wrap err ''handle clock frame data''),
                                     logger Debug ''could not verify clock frame'' s2)
                               | None \<Rightarrow>
                                   let s3 = logger Debug ''clock frame was valid'' s2;
                                       s4 = called CallHead s3
                                   in (case dataTimeReel_Head env of
                                         Inl err \<Rightarrow> Panic err
                                       | Inr head \<Rightarrow>
                                           if FrameNumber f > FrameNumber head then
                                             Done (None, called (CallInsert f False) s4)
                                           else Done (None, s4))))))))"

text \<open>\<^verbatim>\<open>handleClockFrameData\<close>, lines 223 to 239.\<close>

definition handleClockFrameData ::
  "env \<Rightarrow> bytes \<Rightarrow> bytes \<Rightarrow> Any \<Rightarrow> bool \<Rightarrow> engine \<Rightarrow> (error option \<times> engine) exec" where
  "handleClockFrameData env peerID address any isSync s =
     (if peerID = pubSub_GetPeerID env then Done (None, s)
      else case any_UnmarshalTo_ClockFrame env any of
             Inl err \<Rightarrow> Done (Some (Wrap err ''handle clock frame data''), s)
           | Inr frame \<Rightarrow> handleClockFrame env peerID address (Some frame) s)"

section \<open>Peer registry\<close>

text \<open>\<^verbatim>\<open>bytes.Compare\<close>: the lexicographic order of byte strings, as \<open>-1\<close>, \<open>0\<close> or \<open>1\<close>.\<close>

fun bytes_Compare :: "bytes \<Rightarrow> bytes \<Rightarrow> int" where
  "bytes_Compare [] [] = 0"
| "bytes_Compare [] (y # ys) = - 1"
| "bytes_Compare (x # xs) [] = 1"
| "bytes_Compare (x # xs) (y # ys) =
     (if x < y then - 1 else if y < x then 1 else bytes_Compare xs ys)"

text \<open>\<^verbatim>\<open>binary.BigEndian.AppendUint64([]byte{}, v)\<close>: the eight bytes of \<open>v\<close>, highest first.\<close>

definition AppendUint64 :: "64 word \<Rightarrow> bytes" where
  "AppendUint64 v = map (\<lambda>i. ucast (drop_bit (8 * i) v)) [7, 6, 5, 4, 3, 2, 1, 0]"

text \<open>
  How one round of the loop over \<^verbatim>\<open>announce.PeerList\<close> leaves a block of its body:
  by \<^verbatim>\<open>continue\<close>, or by running on to the next statement.
\<close>

datatype flow = Continue engine | Next engine

text \<open>
  Lines 264 to 306 of the loop body: the key, the peer id, the signature over
  \<^verbatim>\<open>BigEndian(max_frame) || version || BigEndian(uint64(timestamp))\<close> and the version
  gate. \<^verbatim>\<open>Timestamp\<close> and the cutoff are \<^verbatim>\<open>int64\<close>: the conversion to \<^verbatim>\<open>uint64\<close> keeps
  the bits, and the comparison is signed.
\<close>

definition validateDataPeer :: "env \<Rightarrow> DataPeer \<Rightarrow> engine \<Rightarrow> flow" where
  "validateDataPeer env p s =
     (case (dp_PublicKey p, dp_Signature p, Version p) of
        (Some pk, Some sg, Some v) \<Rightarrow>
          (case pcrypto_UnmarshalEd448PublicKey env pk of
             Inl err \<Rightarrow> Continue (logger Warn ''peer announcement contained invalid pubkey'' s)
           | Inr key \<Rightarrow>
               if \<not> peer_MatchesPublicKey env (PeerId p) key then
                 Continue (logger Warn ''peer announcement peer id does not match pubkey'' s)
               else
                 let msg = AppendUint64 (MaxFrame p);
                     msg = msg @ v;
                     msg = msg @ AppendUint64 (Timestamp p)
                 in (case key_Verify env key msg sg of
                       (b, err) \<Rightarrow>
                         if err \<noteq> None \<or> \<not> b then
                           Continue (logger Warn ''peer provided invalid signature'' s)
                         else if bytes_Compare v (config_GetMinimumVersion env) < 0
                                 \<and> sint (Timestamp p)
                                     > sint (config_GetMinimumVersionCutoff_UnixMilli env) then
                           Continue (called (CallSetPeerScore (PeerId p) (- 1000000))
                             (logger Debug
                                ''peer provided outdated version, penalizing app score'' s))
                         else Next s))
      | _ \<Rightarrow> Next s)"

text \<open>
  Lines 308 to 354 of the loop body: the uncooperative peers, the score of 10, the
  rules against the existing entry, and the new entry. The key \<^verbatim>\<open>string(p.PeerId)\<close>
  of the maps is the peer id itself.
\<close>

definition storeDataPeer :: "env \<Rightarrow> bytes \<Rightarrow> DataPeer \<Rightarrow> engine \<Rightarrow> engine" where
  "storeDataPeer env peerID p s =
     (if uncooperativePeersMap s (PeerId p) \<noteq> None then s
      else
        let multiaddr = pubSub_GetMultiaddrOfPeer env (PeerId p);
            s1 = called (CallSetPeerScore (PeerId p) 10) s;
            s2 = s1\<lparr>peerMap := (peerMap s1)(PeerId p \<mapsto>
                   \<lparr>peerId = PeerId p,
                    multiaddr = multiaddr,
                    maxFrame = MaxFrame p,
                    timestamp = Timestamp p,
                    lastSeen = time_Now_Unix env,
                    version = Version p,
                    signature = dp_Signature p,
                    publicKey = dp_PublicKey p,
                    direct = (PeerId p = peerID),
                    totalDistance = TotalDistance p\<rparr>)\<rparr>
        in (case peerMap s1 (PeerId p) of
              Some existing \<Rightarrow>
                if signature existing \<noteq> None \<and> dp_Signature p = None then s1
                else if publicKey existing \<noteq> None \<and> dp_PublicKey p = None then s1
                else if version existing \<noteq> None \<and> Version p = None then s1
                else if sint (timestamp existing) > sint (Timestamp p) then s1
                else s2
            | None \<Rightarrow> s2))"

text \<open>
  The two critical sections of lines 308 to 354. The first, lines 308 to 339, reads
  the maps under the read lock and decides whether the round goes on to the write;
  the second, lines 341 to 354, writes the entry under the write lock. The locks are
  released in between, so the handler of another message can run between the two.
\<close>

definition checkExisting :: "env \<Rightarrow> DataPeer \<Rightarrow> engine \<Rightarrow> engine \<times> bool" where
  "checkExisting env p s =
     (if uncooperativePeersMap s (PeerId p) \<noteq> None then (s, False)
      else
        let s1 = called (CallSetPeerScore (PeerId p) 10) s
        in (case peerMap s1 (PeerId p) of
              Some existing \<Rightarrow>
                if signature existing \<noteq> None \<and> dp_Signature p = None then (s1, False)
                else if publicKey existing \<noteq> None \<and> dp_PublicKey p = None then (s1, False)
                else if version existing \<noteq> None \<and> Version p = None then (s1, False)
                else if sint (timestamp existing) > sint (Timestamp p) then (s1, False)
                else (s1, True)
            | None \<Rightarrow> (s1, True)))"

definition writeDataPeer :: "env \<Rightarrow> bytes \<Rightarrow> DataPeer \<Rightarrow> engine \<Rightarrow> engine" where
  "writeDataPeer env peerID p s =
     s\<lparr>peerMap := (peerMap s)(PeerId p \<mapsto>
        \<lparr>peerId = PeerId p,
         multiaddr = pubSub_GetMultiaddrOfPeer env (PeerId p),
         maxFrame = MaxFrame p,
         timestamp = Timestamp p,
         lastSeen = time_Now_Unix env,
         version = Version p,
         signature = dp_Signature p,
         publicKey = dp_PublicKey p,
         direct = (PeerId p = peerID),
         totalDistance = TotalDistance p\<rparr>)\<rparr>"

text \<open>One round of the loop, lines 252 to 354.\<close>

definition announcePeer :: "env \<Rightarrow> bytes \<Rightarrow> DataPeer \<Rightarrow> engine \<Rightarrow> engine" where
  "announcePeer env peerID p s =
     (if PeerId p = pubSub_GetPeerID env then s
      else if PeerId p \<noteq> peerID then s
      else if dp_PublicKey p = None \<or> dp_Signature p = None \<or> Version p = None then s
      else case validateDataPeer env p s of
             Continue s' \<Rightarrow> s'
           | Next s' \<Rightarrow> storeDataPeer env peerID p s')"

text \<open>\<^verbatim>\<open>handleDataPeerListAnnounce\<close>, lines 241 to 357.\<close>

definition handleDataPeerListAnnounce ::
  "env \<Rightarrow> bytes \<Rightarrow> bytes \<Rightarrow> Any \<Rightarrow> engine \<Rightarrow> error option \<times> engine" where
  "handleDataPeerListAnnounce env peerID address any s =
     (case any_UnmarshalTo_DataPeerListAnnounce env any of
        Inl err \<Rightarrow> (Some (Wrap err ''handle data peer list announce''), s)
      | Inr announce \<Rightarrow> (None, fold (announcePeer env peerID) (PeerList announce) s))"

section \<open>Transaction staging\<close>

text \<open>
  The key of a \<^verbatim>\<open>Join\<close>, \<^verbatim>\<open>Leave\<close>, \<^verbatim>\<open>Pause\<close> or \<^verbatim>\<open>Resume\<close>:
  \<^verbatim>\<open>GetPublicKeySignatureEd448().PublicKey.KeyValue\<close>. The getter gives \<^verbatim>\<open>nil\<close> for an
  absent signature, and the field reads after it panic on \<^verbatim>\<open>nil\<close>.
\<close>

definition signer_KeyValue :: "Ed448Signature option \<Rightarrow> bytes exec" where
  "signer_KeyValue sg =
     (case sg of
        None \<Rightarrow> Panic nil_dereference
      | Some g \<Rightarrow> (case PublicKey g of
                    None \<Rightarrow> Panic nil_dereference
                  | Some k \<Rightarrow> Done (KeyValue k)))"

text \<open>
  The comparison of two such keys by \<^verbatim>\<open>bytes.Equal\<close>, the staged one first as in the
  source, and the value of \<^verbatim>\<open>found\<close> after it.
\<close>

definition same_signer ::
  "Ed448Signature option \<Rightarrow> Ed448Signature option \<Rightarrow> bool \<Rightarrow> bool exec" where
  "same_signer t r found =
     (case signer_KeyValue t of
        Panic e \<Rightarrow> Panic e
      | Done tk \<Rightarrow> (case signer_KeyValue r of
                     Panic e \<Rightarrow> Panic e
                   | Done rk \<Rightarrow> Done (if tk = rk then True else found)))"

text \<open>
  The loops labelled \<^verbatim>\<open>checkannounce\<close>, lines 416 to 427: \<open>True\<close> when a pair of equal
  keys was met and the loops were left.
\<close>

fun checkannounce_j :: "Ed448Signature \<Rightarrow> Ed448Signature list \<Rightarrow> bool exec" where
  "checkannounce_j ti [] = Done False"
| "checkannounce_j ti (rj # rs) =
     (case PublicKey ti of
        None \<Rightarrow> Panic nil_dereference
      | Some tk \<Rightarrow>
         (case PublicKey rj of
            None \<Rightarrow> Panic nil_dereference
          | Some rk \<Rightarrow>
             if KeyValue tk = KeyValue rk then Done True else checkannounce_j ti rs))"

fun checkannounce :: "Ed448Signature list \<Rightarrow> Ed448Signature list \<Rightarrow> bool exec" where
  "checkannounce [] rs = Done False"
| "checkannounce (ti # ts) rs =
     (case checkannounce_j ti rs of
        Panic e \<Rightarrow> Panic e
      | Done hit \<Rightarrow> if hit then Done True else checkannounce ts rs)"

text \<open>
  The \<^verbatim>\<open>switch\<close> of lines 370 to 469, for the staged request \<open>ti\<close> and the incoming
  \<open>transition\<close>: the value of \<^verbatim>\<open>found\<close> after it. The \<^verbatim>\<open>Split\<close> case compares
  \<^verbatim>\<open>r.Split.OfCoin.Address\<close> with \<^verbatim>\<open>r.Split.OfCoin.Address\<close>, as line 381 does.
\<close>

definition checkStaged :: "TokenRequest \<Rightarrow> TokenRequest \<Rightarrow> bool \<Rightarrow> bool exec" where
  "checkStaged ti transition found =
     (case Request ti of
        TokenRequest_Transfer t \<Rightarrow>
          (case Request transition of
             TokenRequest_Transfer r \<Rightarrow>
               (case transfer_OfCoin r of
                  None \<Rightarrow> Panic nil_dereference
                | Some rc \<Rightarrow>
                   (case transfer_OfCoin t of
                      None \<Rightarrow> Panic nil_dereference
                    | Some tc \<Rightarrow> Done (if Address rc = Address tc then True else found)))
           | _ \<Rightarrow> Done found)
      | TokenRequest_Split t \<Rightarrow>
          (case Request transition of
             TokenRequest_Split r \<Rightarrow>
               (case split_OfCoin r of
                  None \<Rightarrow> Panic nil_dereference
                | Some rc \<Rightarrow> Done (if Address rc = Address rc then True else found))
           | _ \<Rightarrow> Done found)
      | TokenRequest_Merge t \<Rightarrow>
          (case Request transition of
             TokenRequest_Merge r \<Rightarrow>
               Done (if list_ex (\<lambda>ci. list_ex (\<lambda>cj. Address ci = Address cj) (Coins r)) (Coins t)
                     then True else found)
           | _ \<Rightarrow> Done found)
      | TokenRequest_Mint t \<Rightarrow>
          (case Request transition of
             TokenRequest_Mint r \<Rightarrow>
               Done (if list_ex (\<lambda>pi. length (Proofs r) < 2
                                     \<and> list_ex (\<lambda>pj. pi = pj) (Proofs r)) (Proofs t)
                     then True else found)
           | _ \<Rightarrow> Done found)
      | TokenRequest_Announce t \<Rightarrow>
          (case Request transition of
             TokenRequest_Announce r \<Rightarrow>
               (case checkannounce (PublicKeySignaturesEd448 t) (PublicKeySignaturesEd448 r) of
                  Panic e \<Rightarrow> Panic e
                | Done hit \<Rightarrow> Done (if hit then True else found))
           | _ \<Rightarrow> Done found)
      | TokenRequest_Join t \<Rightarrow>
          (case Request transition of
             TokenRequest_Join r \<Rightarrow>
               same_signer (join_PublicKeySignatureEd448 t) (join_PublicKeySignatureEd448 r) found
           | _ \<Rightarrow> Done found)
      | TokenRequest_Leave t \<Rightarrow>
          (case Request transition of
             TokenRequest_Leave r \<Rightarrow>
               same_signer (leave_PublicKeySignatureEd448 t) (leave_PublicKeySignatureEd448 r) found
           | _ \<Rightarrow> Done found)
      | TokenRequest_Pause t \<Rightarrow>
          (case Request transition of
             TokenRequest_Pause r \<Rightarrow>
               same_signer (pause_PublicKeySignatureEd448 t) (pause_PublicKeySignatureEd448 r) found
           | _ \<Rightarrow> Done found)
      | TokenRequest_Resume t \<Rightarrow>
          (case Request transition of
             TokenRequest_Resume r \<Rightarrow>
               same_signer (resume_PublicKeySignatureEd448 t) (resume_PublicKeySignatureEd448 r)
                 found
           | _ \<Rightarrow> Done found)
      | NoRequest \<Rightarrow> Done found)"

text \<open>The loop over \<^verbatim>\<open>e.stagedTransactions.Requests\<close>, lines 369 to 470.\<close>

fun scanStaged :: "TokenRequest list \<Rightarrow> TokenRequest \<Rightarrow> bool \<Rightarrow> bool exec" where
  "scanStaged [] transition found = Done found"
| "scanStaged (ti # rest) transition found =
     (case checkStaged ti transition found of
        Panic e \<Rightarrow> Panic e
      | Done found' \<Rightarrow> scanStaged rest transition found')"

text \<open>
  \<^verbatim>\<open>handleTokenRequest\<close>, lines 359 to 481. A \<^verbatim>\<open>nil\<close> \<^verbatim>\<open>stagedTransactions\<close> is
  \<open>None\<close>, and line 365 makes it the empty list.
\<close>

definition handleTokenRequest :: "TokenRequest \<Rightarrow> engine \<Rightarrow> (error option \<times> engine) exec" where
  "handleTokenRequest transition s =
     (case frameProverTries s of
        [] \<Rightarrow> Panic ''index out of range [0] with length 0''
      | trie # _ \<Rightarrow>
         if provingKeyAddress s \<in> trie then
           let requests = (case stagedTransactions s of None \<Rightarrow> [] | Some rs \<Rightarrow> rs)
           in (case scanStaged requests transition False of
                 Panic e \<Rightarrow> Panic e
               | Done found \<Rightarrow>
                   if \<not> found then
                     Done (None, s\<lparr>stagedTransactions := Some (requests @ [transition])\<rparr>)
                   else Done (None, s\<lparr>stagedTransactions := Some requests\<rparr>))
         else Done (None, s))"

section \<open>Nonces\<close>

text \<open>
  \<^verbatim>\<open>autononce.go\<close>. The heap is a list of token requests and a pointer is an index
  into it; an index outside the heap is the \<^verbatim>\<open>nil\<close> pointer. \<^verbatim>\<open>clone\<close> is
  \<^verbatim>\<open>proto.Clone\<close>: a copy at a new address, and \<^verbatim>\<open>nil\<close> for \<^verbatim>\<open>nil\<close>.
\<close>

definition clone :: "nat \<Rightarrow> engine \<Rightarrow> nat \<times> engine" where
  "clone message s =
     (if message < length (heap s)
      then (length (heap s), s\<lparr>heap := heap s @ [heap s ! message]\<rparr>)
      else (message, s))"

text \<open>
  \<^verbatim>\<open>AddTokenRequest\<close>, lines 14 to 20: \<^verbatim>\<open>rand.Read\<close> takes the next 32 bytes of the
  entropy and fails when there are fewer.
\<close>

definition AddTokenRequest :: "nat \<Rightarrow> engine \<Rightarrow> (nat \<times> engine) exec" where
  "AddTokenRequest request s =
     (if \<not> request < length (heap s) then Panic nil_dereference
      else if length (entropy s) < 32 then Panic ''rand.Read failed''
      else Done (request,
             s\<lparr>heap := (heap s)[request := (heap s ! request)\<lparr>Nonce := Some (take 32 (entropy s))\<rparr>],
               entropy := drop 32 (entropy s)\<rparr>))"

text \<open>\<^verbatim>\<open>Add\<close>, lines 22 to 27.\<close>

definition Add :: "proto_Message \<Rightarrow> engine \<Rightarrow> (proto_Message \<times> engine) exec" where
  "Add message s =
     (case message of
        TokenRequestPtr tokenRequest \<Rightarrow>
          (case clone tokenRequest s of
             (c, s1) \<Rightarrow> (case AddTokenRequest c s1 of
                           Panic e \<Rightarrow> Panic e
                         | Done (r, s2) \<Rightarrow> Done (TokenRequestPtr r, s2)))
      | _ \<Rightarrow> Done (message, s))"

section \<open>Outbound publisher\<close>

text \<open>
  \<^verbatim>\<open>strings.Replace(s, old, new, 1)\<close>: the leftmost occurrence of \<open>old\<close> is replaced.
\<close>

fun strings_Replace_1 :: "string \<Rightarrow> string \<Rightarrow> string \<Rightarrow> string" where
  "strings_Replace_1 [] old new = (if old = [] then new else [])"
| "strings_Replace_1 (c # cs) old new =
     (if take (length old) (c # cs) = old then new @ drop (length old) (c # cs)
      else c # strings_Replace_1 cs old new)"

text \<open>
  \<^verbatim>\<open>any.MarshalFrom(message)\<close> of anypb: the type URL is \<^verbatim>\<open>type.googleapis.com/\<close>
  and the full name of the message type, the value is the marshalled message.
\<close>

definition any_MarshalFrom :: "env \<Rightarrow> engine \<Rightarrow> proto_Message \<Rightarrow> error + Any" where
  "any_MarshalFrom env s message =
     (case message of
        TokenRequestPtr a \<Rightarrow>
          (if a < length (heap s) then
             (case proto_Marshal_TokenRequest env (heap s ! a) of
                Inl err \<Rightarrow> Inl err
              | Inr b \<Rightarrow> Inr \<lparr>TypeUrl = ''type.googleapis.com/'' @ FullName_TokenRequest env,
                              Value = b\<rparr>)
           else Inl ''proto: invalid nil source message'')
      | ClockFramePtr f \<Rightarrow>
          (case proto_Marshal_ClockFrame env f of
             Inl err \<Rightarrow> Inl err
           | Inr b \<Rightarrow> Inr \<lparr>TypeUrl = ''type.googleapis.com/'' @ FullName_ClockFrame env,
                           Value = b\<rparr>)
      | DataPeerListAnnouncePtr l \<Rightarrow>
          (case proto_Marshal_DataPeerListAnnounce env l of
             Inl err \<Rightarrow> Inl err
           | Inr b \<Rightarrow> Inr \<lparr>TypeUrl = ''type.googleapis.com/'' @ FullName_DataPeerListAnnounce env,
                           Value = b\<rparr>))"

text \<open>
  The wrapping that \<^verbatim>\<open>insertTxMessage\<close> (lines 95 to 121) and \<^verbatim>\<open>publishMessage\<close>
  (lines 147 to 173) both do: the message as an \<^verbatim>\<open>Any\<close>, its type URL rewritten, the
  marshalled payload, its Poseidon hash, and the signed message of the three.
\<close>

definition wrapMessage :: "env \<Rightarrow> engine \<Rightarrow> proto_Message \<Rightarrow> error + Message" where
  "wrapMessage env s message =
     (case any_MarshalFrom env s message of
        Inl err \<Rightarrow> Inl (Wrap err ''publish message'')
      | Inr any \<Rightarrow>
         let any = any\<lparr>TypeUrl :=
               strings_Replace_1 (TypeUrl any) ''type.googleapis.com'' ''types.quilibrium.com''\<rparr>
         in (case proto_Marshal_Any env any of
               Inl err \<Rightarrow> Inl (Wrap err ''publish message'')
             | Inr payload \<Rightarrow>
                (case poseidon_HashBytes env payload of
                   Inl err \<Rightarrow> Inl (Wrap err ''publish message'')
                 | Inr h \<Rightarrow>
                    Inr \<lparr>Hash = h, msg_Address = provingKeyAddress s, Payload = payload\<rparr>)))"

text \<open>\<^verbatim>\<open>publishMessage\<close>, lines 141 to 179.\<close>

definition publishMessage ::
  "env \<Rightarrow> bytes \<Rightarrow> proto_Message \<Rightarrow> engine \<Rightarrow> (error option \<times> engine) exec" where
  "publishMessage env filter' message s =
     (case Add message s of
        Panic e \<Rightarrow> Panic e
      | Done (message, s1) \<Rightarrow>
         (case wrapMessage env s1 message of
            Inl err \<Rightarrow> Done (Some err, s1)
          | Inr msg \<Rightarrow>
             (case proto_Marshal_Message env msg of
                Inl err \<Rightarrow> Done (Some (Wrap err ''publish message''), s1)
              | Inr data \<Rightarrow>
                 Done (pubSub_PublishToBitmask env filter' data,
                   called (CallPublishToBitmask filter' data) s1))))"

text \<open>
  \<^verbatim>\<open>big.Int.FillBytes(make([]byte, n))\<close>: the number in \<open>n\<close> bytes, highest first, and a
  panic when it does not fit.
\<close>

definition FillBytes :: "nat \<Rightarrow> nat \<Rightarrow> bytes exec" where
  "FillBytes x n =
     (if x < 256 ^ n then Done (map (\<lambda>i. of_nat (x div 256 ^ i)) (rev [0..<n]))
      else Panic ''math/big: buffer too small to fit value'')"

text \<open>
  Lines 51 to 81 of \<^verbatim>\<open>publishProof\<close>: the entry of the node itself in the peer map
  and the announcement to publish.
\<close>

definition selfAnnounce :: "env \<Rightarrow> ClockFrame \<Rightarrow> engine \<Rightarrow> (DataPeerListAnnounce \<times> engine) exec" where
  "selfAnnounce env frame s =
     (let s0 = logger Debug ''publishing frame and aggregations'' s;
          timestamp = time_Now_UnixMilli env;
          s1 = called CallGetTotalDistance s0
      in case FillBytes (dataTimeReel_GetTotalDistance env) 256 of
           Panic e \<Rightarrow> Panic e
         | Done d1 \<Rightarrow>
            let s2 = s1\<lparr>peerMap := (peerMap s1)(pubSub_GetPeerID env \<mapsto>
                       \<lparr>peerId = pubSub_GetPeerID env,
                        multiaddr = [],
                        maxFrame = FrameNumber frame,
                        timestamp = timestamp,
                        lastSeen = 0,
                        version = Some (config_GetVersion env),
                        signature = None,
                        publicKey = None,
                        direct = False,
                        totalDistance = d1\<rparr>)\<rparr>;
                s3 = called CallGetTotalDistance s2
            in case FillBytes (dataTimeReel_GetTotalDistance env) 256 of
                 Panic e \<Rightarrow> Panic e
               | Done d2 \<Rightarrow>
                  Done (\<lparr>PeerList = [],
                         Peer = Some \<lparr>PeerId = [],
                                      Multiaddr = [],
                                      MaxFrame = FrameNumber frame,
                                      Timestamp = timestamp,
                                      Version = Some (config_GetVersion env),
                                      dp_Signature = None,
                                      dp_PublicKey = None,
                                      TotalDistance = d2\<rparr>\<rparr>, s3))"

text \<open>\<^verbatim>\<open>publishProof\<close>, lines 48 to 89.\<close>

definition publishProof :: "env \<Rightarrow> ClockFrame \<Rightarrow> engine \<Rightarrow> (error option \<times> engine) exec" where
  "publishProof env frame s =
     (case selfAnnounce env frame s of
        Panic e \<Rightarrow> Panic e
      | Done (list, s1) \<Rightarrow>
         (case publishMessage env (infoFilter s1) (DataPeerListAnnouncePtr list) s1 of
            Panic e \<Rightarrow> Panic e
          | Done (err, s2) \<Rightarrow>
             let s3 = (case err of
                         Some _ \<Rightarrow> logger Debug ''error publishing message'' s2
                       | None \<Rightarrow> s2)
             in (case publishMessage env (frameFilter s3) (ClockFramePtr frame) s3 of
                   Panic e \<Rightarrow> Panic e
                 | Done (_, s4) \<Rightarrow> Done (None, s4))))"

text \<open>The error that a call returns, without the state.\<close>

definition returned :: "(error option \<times> engine) exec \<Rightarrow> error option exec" where
  "returned r = (case r of Panic e \<Rightarrow> Panic e | Done (err, s) \<Rightarrow> Done err)"

section \<open>The tx worker\<close>






section \<open>Concrete engines\<close>

text \<open>
  A small node for the instances below: the peer with id \<open>[1]\<close>, proving key address
  \<open>[10]\<close>, a prover trie that holds \<open>[10]\<close> alone, a time reel with head frame 5, and
  stand-ins for the libraries: a hash and a key parser that give their input back, a
  signature that is the key followed by the message, a marshalling of a token request
  that is its nonce.
\<close>

definition env0 :: env where
  "env0 = \<lparr>
     pubSub_GetPeerID = [1],
     pubSub_GetMultiaddrOfPeer = (\<lambda>_. ''/ip4/10.0.0.2''),
     pubSub_PublishToBitmask = (\<lambda>_ _. None),
     frameProver_VerifyDataClockFrame = (\<lambda>_. None),
     dataTimeReel_Head = Inr \<lparr>Filter = [], FrameNumber = 5, AggregateProofs = [],
        PublicKeySignatureEd448 = None\<rparr>,
     dataTimeReel_GetTotalDistance = 7,
     engine_ProcessMessage = (\<lambda>_ _ m. Inr [m]),
     poseidon_HashBytes = (\<lambda>b. Inr b),
     pcrypto_UnmarshalEd448PublicKey = (\<lambda>b. Inr b),
     peer_MatchesPublicKey = (\<lambda>i k. i = k),
     key_Verify = (\<lambda>k m sg. (sg = k @ m, None)),
     config_GetMinimumVersion = [2, 0, 4],
     config_GetMinimumVersionCutoff_UnixMilli = 1000,
     config_GetVersion = [2, 0, 4],
     time_Now_Unix = 2,
     time_Now_UnixMilli = 2000,
     application_TOKEN_ADDRESS = [9],
     protobufs_TokenRequestType = ''types.quilibrium.com/quilibrium.node.node.pb.TokenRequest'',
     FullName_TokenRequest = ''quilibrium.node.node.pb.TokenRequest'',
     FullName_ClockFrame = ''quilibrium.node.clock.pb.ClockFrame'',
     FullName_DataPeerListAnnounce = ''quilibrium.node.data.pb.DataPeerListAnnounce'',
     proto_Marshal_TokenRequest = (\<lambda>t. Inr (case Nonce t of None \<Rightarrow> [] | Some n \<Rightarrow> n)),
     proto_Marshal_ClockFrame = (\<lambda>f. Inr (Filter f)),
     proto_Marshal_DataPeerListAnnounce = (\<lambda>l. Inr []),
     proto_Marshal_Any = (\<lambda>a. Inr (Value a)),
     proto_Marshal_Message = (\<lambda>m. Inr (Hash m @ Payload m)),
     proto_Unmarshal_Message = (\<lambda>b. Inr \<lparr>Hash = [], msg_Address = [], Payload = b\<rparr>),
     proto_Unmarshal_Any = (\<lambda>b. Inr
        \<lparr>TypeUrl = ''types.quilibrium.com/quilibrium.node.node.pb.TokenRequest'', Value = b\<rparr>),
     proto_Unmarshal_TokenRequest = (\<lambda>b. Inr \<lparr>Request = NoRequest, Nonce = None\<rparr>),
     any_UnmarshalTo_ClockFrame = (\<lambda>a. Inl ''cannot parse''),
     any_UnmarshalTo_DataPeerListAnnounce = (\<lambda>a. Inl ''cannot parse'')
   \<rparr>"

definition engine0 :: engine where
  "engine0 = \<lparr>
     peerMap = Map.empty,
     uncooperativePeersMap = Map.empty,
     stagedTransactions = None,
     frameProverTries = [{[10]}],
     provingKeyAddress = [10],
     syncingStatus = SyncStatusNotSyncing,
     executionEngines = [''token''],
     infoFilter = [3],
     frameFilter = [4],
     calls = [],
     logs = [],
     entropy = [],
     heap = []
   \<rparr>"

text \<open>A frame with number \<open>n\<close> signed by the key \<open>k\<close>.\<close>

definition frame_by :: "bytes \<Rightarrow> 64 word \<Rightarrow> ClockFrame" where
  "frame_by k n = \<lparr>Filter = [4], FrameNumber = n, AggregateProofs = [],
     PublicKeySignatureEd448 = Some \<lparr>PublicKey = Some \<lparr>KeyValue = k\<rparr>, Signature = []\<rparr>\<rparr>"

text \<open>
  An announcement record of the peer \<open>i\<close> with version \<open>v\<close>, highest frame \<open>m\<close>,
  timestamp \<open>t\<close> and signature \<open>sg\<close>; the same with the signature that \<open>env0\<close> accepts;
  and the registry entry of a record.
\<close>

definition peer_of :: "bytes \<Rightarrow> bytes \<Rightarrow> 64 word \<Rightarrow> 64 word \<Rightarrow> bytes \<Rightarrow> DataPeer" where
  "peer_of i v m t sg = \<lparr>PeerId = i, Multiaddr = [], MaxFrame = m, Timestamp = t,
     Version = Some v, dp_Signature = Some sg, dp_PublicKey = Some i, TotalDistance = []\<rparr>"

definition signed_peer :: "bytes \<Rightarrow> bytes \<Rightarrow> 64 word \<Rightarrow> 64 word \<Rightarrow> DataPeer" where
  "signed_peer i v m t = peer_of i v m t (i @ AppendUint64 m @ v @ AppendUint64 t)"

definition info_of :: "DataPeer \<Rightarrow> peerInfo" where
  "info_of p = \<lparr>peerId = PeerId p, multiaddr = ''/ip4/10.0.0.2'', maxFrame = MaxFrame p,
     timestamp = Timestamp p, lastSeen = 1, version = Version p, signature = dp_Signature p,
     publicKey = dp_PublicKey p, direct = True, totalDistance = TotalDistance p\<rparr>"

text \<open>The node with an entry for the peer \<open>[2]\<close>, of timestamp 5 and highest frame 3.\<close>

definition engine1 :: engine where
  "engine1 = engine0\<lparr>peerMap := Map.empty([2] \<mapsto> info_of (signed_peer [2] [2, 0, 4] 3 5))\<rparr>"

text \<open>The libraries of \<open>env0\<close>, with an unmarshalling that gives the records \<open>ps\<close>.\<close>

definition announce_of :: "DataPeer list \<Rightarrow> env" where
  "announce_of ps = env0\<lparr>any_UnmarshalTo_DataPeerListAnnounce :=
     (\<lambda>a. Inr \<lparr>PeerList = ps, Peer = None\<rparr>)\<rparr>"

definition any0 :: Any where
  "any0 = \<lparr>TypeUrl = ''types.quilibrium.com/quilibrium.node.data.pb.DataPeerListAnnounce'',
     Value = []\<rparr>"

text \<open>A \<^verbatim>\<open>Split\<close> request of the coin at address \<open>a\<close>.\<close>

definition split_of :: "bytes \<Rightarrow> TokenRequest" where
  "split_of a = \<lparr>Request = TokenRequest_Split \<lparr>split_OfCoin = Some \<lparr>Address = a\<rparr>\<rparr>,
     Nonce = None\<rparr>"

text \<open>The libraries of \<open>env0\<close>, with a pubsub that fails on the filter \<open>[4]\<close>.\<close>

definition env_frame_fails :: env where
  "env_frame_fails = env0\<lparr>pubSub_PublishToBitmask :=
     (\<lambda>f d. if f = [4] then Some ''no peers on bitmask'' else None)\<rparr>"









section \<open>Properties\<close>

subsection \<open>The library functions\<close>

lemma bytes_Compare_less:
  "bytes_Compare a b < 0 \<longleftrightarrow> (a, b) \<in> lexord {(x, y). x < y}"
  by (induction a b rule: bytes_Compare.induct) auto

lemma bytes_Compare_equal:
  "bytes_Compare a b = 0 \<longleftrightarrow> a = b"
  by (induction a b rule: bytes_Compare.induct) auto

lemma length_AppendUint64:
  "length (AppendUint64 v) = 8"
  by (simp add: AppendUint64_def)

lemma strings_Replace_1_type_url:
  "strings_Replace_1 (''type.googleapis.com/'' @ name) ''type.googleapis.com''
     ''types.quilibrium.com'' = ''types.quilibrium.com/'' @ name"
  by simp

subsection \<open>Staging of \<^verbatim>\<open>Split\<close> requests\<close>

lemma checkStaged_Split_Split:
  "checkStaged \<lparr>Request = TokenRequest_Split t, Nonce = n\<rparr>
     \<lparr>Request = TokenRequest_Split \<lparr>split_OfCoin = Some c\<rparr>, Nonce = m\<rparr> found = Done True"
  by (simp add: checkStaged_def)

text \<open>
  C1. A \<^verbatim>\<open>Split\<close> is to collide with a staged \<^verbatim>\<open>Split\<close> only when the two coin
  addresses are equal, and a \<^verbatim>\<open>Split\<close> of a coin that no staged \<^verbatim>\<open>Split\<close> names is to
  be appended. The code does otherwise: with the \<^verbatim>\<open>Split\<close> of the coin \<open>[1]\<close> staged,
  the \<^verbatim>\<open>Split\<close> of the coin \<open>[2]\<close> is found to collide and is not appended.
\<close>

theorem split_of_other_coin_not_staged:
  "[2 :: byte] \<noteq> [1]
   \<and> handleTokenRequest (split_of [2]) (engine0\<lparr>stagedTransactions := Some [split_of [1]]\<rparr>)
       = Done (None, engine0\<lparr>stagedTransactions := Some [split_of [1]]\<rparr>)"
  by (simp add: handleTokenRequest_def checkStaged_def split_of_def engine0_def)

subsection \<open>Publishing a proof\<close>

lemma publishMessage_not_token_request:
  assumes "\<And>a. message \<noteq> TokenRequestPtr a"
  shows "\<exists>err s'. publishMessage env f message s = Done (err, s')"
  using assms
  by (cases message)
     (auto simp add: publishMessage_def Add_def split: sum.splits)

lemma selfAnnounce_Done:
  assumes "dataTimeReel_GetTotalDistance env < 256 ^ 256"
  shows "\<exists>list s1. selfAnnounce env frame s = Done (list, s1)"
  using assms by (simp add: selfAnnounce_def FillBytes_def Let_def)

lemma publishProof_result:
  assumes "selfAnnounce env frame s = Done (list, s1)"
  shows "\<exists>err s2 err' s4.
           publishMessage env (infoFilter s1) (DataPeerListAnnouncePtr list) s1 = Done (err, s2)
         \<and> publishMessage env (frameFilter s2) (ClockFramePtr frame)
               (case err of Some _ \<Rightarrow> logger Debug ''error publishing message'' s2 | None \<Rightarrow> s2)
             = Done (err', s4)
         \<and> publishProof env frame s = Done (None, s4)"
proof -
  obtain err s2 where
    info: "publishMessage env (infoFilter s1) (DataPeerListAnnouncePtr list) s1 = Done (err, s2)"
    using publishMessage_not_token_request [of "DataPeerListAnnouncePtr list"] by blast
  define s3 where
    "s3 = (case err of Some _ \<Rightarrow> logger Debug ''error publishing message'' s2 | None \<Rightarrow> s2)"
  have filter_s3: "frameFilter s3 = frameFilter s2"
    by (simp add: s3_def logger_def split: option.splits)
  obtain err' s4 where
    frame: "publishMessage env (frameFilter s3) (ClockFramePtr frame) s3 = Done (err', s4)"
    using publishMessage_not_token_request [of "ClockFramePtr frame"] by blast
  have "publishProof env frame s = Done (None, s4)"
    using assms info frame by (simp add: publishProof_def s3_def)
  with info frame filter_s3 show ?thesis
    unfolding s3_def by auto
qed

text \<open>
  C3, as stated: a failure of the publish of the frame on the frame filter is to be
  returned by \<^verbatim>\<open>publishProof\<close>. With a pubsub that fails on the frame filter \<open>[4]\<close> the
  publish of the frame returns the error, and \<^verbatim>\<open>publishProof\<close> returns \<^verbatim>\<open>nil\<close>.
\<close>

theorem frame_publish_failure_not_returned:
  "frameFilter engine0 = [4]
   \<and> returned (publishMessage env_frame_fails [4] (ClockFramePtr (frame_by [10] 6)) engine0)
       = Done (Some ''no peers on bitmask'')
   \<and> returned (publishProof env_frame_fails (frame_by [10] 6) engine0) = Done None"
proof -
  have "dataTimeReel_GetTotalDistance env_frame_fails < 256 ^ 256"
    by (simp add: env_frame_fails_def env0_def)
  then obtain list s1 where
    "selfAnnounce env_frame_fails (frame_by [10] 6) engine0 = Done (list, s1)"
    using selfAnnounce_Done by blast
  then obtain s4 where
    "publishProof env_frame_fails (frame_by [10] 6) engine0 = Done (None, s4)"
    using publishProof_result by blast
  then have "returned (publishProof env_frame_fails (frame_by [10] 6) engine0) = Done None"
    by (simp add: returned_def)
  moreover have
    "returned (publishMessage env_frame_fails [4] (ClockFramePtr (frame_by [10] 6)) engine0)
       = Done (Some ''no peers on bitmask'')"
    by (simp add: returned_def publishMessage_def Add_def wrapMessage_def any_MarshalFrom_def
        env_frame_fails_def env0_def)
  moreover have "frameFilter engine0 = [4]"
    by (simp add: engine0_def)
  ultimately show ?thesis by simp
qed

text \<open>
  C3, amended. When the total distance fits the 256 bytes of the announcement,
  \<^verbatim>\<open>publishProof\<close> publishes the announcement of the node on the info filter, writes a
  debug line when that publish gives an error, publishes the frame on the frame filter
  in either case, and returns \<^verbatim>\<open>nil\<close> whatever the two publishes give.
\<close>

theorem publishProof_returns_nil:
  assumes "dataTimeReel_GetTotalDistance env < 256 ^ 256"
  shows "\<exists>list s1 err s2 err' s4.
           selfAnnounce env frame s = Done (list, s1)
         \<and> publishMessage env (infoFilter s1) (DataPeerListAnnouncePtr list) s1 = Done (err, s2)
         \<and> publishMessage env (frameFilter s2) (ClockFramePtr frame)
               (case err of Some _ \<Rightarrow> logger Debug ''error publishing message'' s2 | None \<Rightarrow> s2)
             = Done (err', s4)
         \<and> publishProof env frame s = Done (None, s4)"
proof -
  obtain list s1 where sa: "selfAnnounce env frame s = Done (list, s1)"
    using selfAnnounce_Done [OF assms] by blast
  from publishProof_result [OF sa] sa show ?thesis by blast
qed

theorem publishProof_returns_nil_witness:
  "dataTimeReel_GetTotalDistance env0 < 256 ^ 256
   \<and> returned (publishProof env0 (frame_by [10] 6) engine0) = Done None"
proof -
  have small: "dataTimeReel_GetTotalDistance env0 < 256 ^ 256"
    by (simp add: env0_def)
  from publishProof_returns_nil [OF small, of "frame_by [10] 6" engine0]
  obtain s4 where "publishProof env0 (frame_by [10] 6) engine0 = Done (None, s4)"
    by blast
  with small show ?thesis by (simp add: returned_def)
qed

subsection \<open>The peer registry\<close>

lemma storeDataPeer_sections:
  "storeDataPeer env peerID p s =
     (case checkExisting env p s of
        (s1, True) \<Rightarrow> writeDataPeer env peerID p s1
      | (s1, False) \<Rightarrow> s1)"
  by (simp add: storeDataPeer_def checkExisting_def writeDataPeer_def Let_def
      split: option.splits)

text \<open>
  What the release of the locks between the two sections allows. The entry of the
  peer \<open>[2]\<close> has timestamp 5. The handler of a message with timestamp 7 passes the
  first section; the handler of a message with timestamp 10 then runs both sections
  and stores its record; the first handler then writes: the entry of timestamp 10
  is replaced by one of timestamp 7.
\<close>

lemma interleaved_handlers_lower_timestamp:
  "checkExisting env0 (signed_peer [2] [2, 0, 4] 9 7) engine1
     = (called (CallSetPeerScore [2] 10) engine1, True)
   \<and> map_option timestamp
        (peerMap (storeDataPeer env0 [2] (signed_peer [2] [2, 0, 4] 12 10)
           (called (CallSetPeerScore [2] 10) engine1)) [2]) = Some 10
   \<and> map_option timestamp
        (peerMap (writeDataPeer env0 [2] (signed_peer [2] [2, 0, 4] 9 7)
           (storeDataPeer env0 [2] (signed_peer [2] [2, 0, 4] 12 10)
              (called (CallSetPeerScore [2] 10) engine1))) [2]) = Some 7"
  by (simp add: checkExisting_def storeDataPeer_def writeDataPeer_def called_def engine1_def
      engine0_def signed_peer_def peer_of_def info_of_def)

lemma storeDataPeer_entry:
  assumes "peerMap s k = Some old"
  shows "peerMap (storeDataPeer env peerID p s) k = Some old
     \<or> (k = PeerId p \<and> sint (timestamp old) \<le> sint (Timestamp p)
         \<and> (\<exists>new. peerMap (storeDataPeer env peerID p s) k = Some new
               \<and> timestamp new = Timestamp p))"
  using assms
  by (auto simp add: storeDataPeer_def called_def Let_def split: option.splits)

lemma validateDataPeer_peerMap:
  "validateDataPeer env p s = Continue s' \<Longrightarrow> peerMap s' = peerMap s"
  "validateDataPeer env p s = Next s' \<Longrightarrow> s' = s"
  by (auto simp add: validateDataPeer_def logger_def called_def Let_def
      split: option.splits sum.splits prod.splits if_splits)

lemma announcePeer_entry:
  assumes "peerMap s k = Some old"
  shows "peerMap (announcePeer env peerID p s) k = Some old
     \<or> (k = PeerId p \<and> sint (timestamp old) \<le> sint (Timestamp p)
         \<and> (\<exists>new. peerMap (announcePeer env peerID p s) k = Some new
               \<and> timestamp new = Timestamp p))"
proof (cases "validateDataPeer env p s")
  case (Continue s')
  then show ?thesis
    using assms validateDataPeer_peerMap(1) [OF Continue]
    by (simp add: announcePeer_def)
next
  case (Next s')
  then have "s' = s" by (rule validateDataPeer_peerMap(2))
  then show ?thesis
    using assms Next storeDataPeer_entry [OF assms, of env peerID p]
    by (auto simp add: announcePeer_def)
qed

lemma fold_announcePeer_entry:
  assumes "peerMap s k = Some old"
  shows "\<exists>new. peerMap (fold (announcePeer env peerID) ps s) k = Some new
           \<and> sint (timestamp old) \<le> sint (timestamp new)
           \<and> ((\<forall>p \<in> set ps. PeerId p = k \<longrightarrow> sint (Timestamp p) < sint (timestamp old))
                 \<longrightarrow> new = old)"
  using assms
proof (induction ps arbitrary: s old)
  case Nil
  then show ?case by simp
next
  case (Cons p ps)
  from announcePeer_entry [OF Cons.prems, of env peerID p]
  obtain mid where mid: "peerMap (announcePeer env peerID p s) k = Some mid"
    and le: "sint (timestamp old) \<le> sint (timestamp mid)"
    and same: "mid = old \<or> (PeerId p = k \<and> sint (timestamp old) \<le> sint (Timestamp p))"
    by auto
  from Cons.IH [OF mid]
  obtain new where new: "peerMap (fold (announcePeer env peerID) ps (announcePeer env peerID p s)) k
        = Some new"
    and le': "sint (timestamp mid) \<le> sint (timestamp new)"
    and same': "(\<forall>q \<in> set ps. PeerId q = k \<longrightarrow> sint (Timestamp q) < sint (timestamp mid))
                 \<longrightarrow> new = mid"
    by auto
  show ?case
    using new le le' same same' by auto
qed

lemma announcePeer_replaces_unless_older:
  assumes "peerMap s k = Some old"
      and "PeerId p = k" and "k \<noteq> pubSub_GetPeerID env" and "k = peerID"
      and "dp_PublicKey p = Some pk" and "dp_Signature p = Some sg" and "Version p = Some v"
      and "pcrypto_UnmarshalEd448PublicKey env pk = Inr key"
      and "peer_MatchesPublicKey env k key"
      and "key_Verify env key (AppendUint64 (MaxFrame p) @ v @ AppendUint64 (Timestamp p)) sg
             = (True, None)"
      and "\<not> (bytes_Compare v (config_GetMinimumVersion env) < 0
              \<and> sint (config_GetMinimumVersionCutoff_UnixMilli env) < sint (Timestamp p))"
      and "uncooperativePeersMap s k = None"
  shows "peerMap (announcePeer env peerID p s) k =
           (if sint (Timestamp p) < sint (timestamp old) then Some old
            else Some \<lparr>peerId = k,
                       multiaddr = pubSub_GetMultiaddrOfPeer env k,
                       maxFrame = MaxFrame p,
                       timestamp = Timestamp p,
                       lastSeen = time_Now_Unix env,
                       version = Some v,
                       signature = Some sg,
                       publicKey = Some pk,
                       direct = True,
                       totalDistance = TotalDistance p\<rparr>)"
  using assms
  by (auto simp add: announcePeer_def validateDataPeer_def storeDataPeer_def called_def
      logger_def Let_def)

text \<open>
  C2, as stated: an announcement whose timestamp is less than or equal to that of the
  existing entry is to leave the entry as it is. The entry of the peer \<open>[2]\<close> has
  timestamp 5 and highest frame 3; an announcement of that peer with timestamp 5 and
  highest frame 9, signed, replaces it.
\<close>

theorem equal_timestamp_replaces_entry:
  "peerMap engine1 [2] = Some (info_of (signed_peer [2] [2, 0, 4] 3 5))
   \<and> sint (Timestamp (signed_peer [2] [2, 0, 4] 9 5))
        \<le> sint (timestamp (info_of (signed_peer [2] [2, 0, 4] 3 5)))
   \<and> peerMap (snd (handleDataPeerListAnnounce (announce_of [signed_peer [2] [2, 0, 4] 9 5])
        [2] [] any0 engine1)) [2] \<noteq> peerMap engine1 [2]"
  by (simp add: handleDataPeerListAnnounce_def announcePeer_def validateDataPeer_def
      storeDataPeer_def announce_of_def env0_def engine1_def engine0_def signed_peer_def
      peer_of_def info_of_def AppendUint64_def called_def logger_def)

text \<open>
  C2, amended. The statement is about one call of \<^verbatim>\<open>handleDataPeerListAnnounce\<close> that
  runs from its first line to its last with no other handler writing the peer map in
  between; the source starts a handler for each message and releases the locks between
  the read of the entry and the write, and for handlers that interleave the statement
  does not hold (\<open>interleaved_handlers_lower_timestamp\<close>).

  Through such a call an entry of the registry stays an entry, the timestamp of the
  entry after it is not less than the timestamp before, and when every record of the
  announcement about that peer has a timestamp less than that of the entry, the entry
  is as it was. In one round of the loop, a record of the sender about itself that
  passes the checks of the key, the signature and the version, for a peer that is not
  marked uncooperative, leaves the entry as it was when its timestamp is less than
  that of the entry, and replaces the entry by its own when its timestamp is equal or
  greater. (The timestamps are \<^verbatim>\<open>int64\<close> and are compared signed.)
\<close>

theorem peer_entry_replaced_only_by_not_older:
  assumes "any_UnmarshalTo_DataPeerListAnnounce env any = Inr announce"
      and "peerMap s k = Some old"
  shows "(\<exists>new. peerMap (snd (handleDataPeerListAnnounce env peerID address any s)) k = Some new
           \<and> sint (timestamp old) \<le> sint (timestamp new)
           \<and> ((\<forall>p \<in> set (PeerList announce).
                   PeerId p = k \<longrightarrow> sint (Timestamp p) < sint (timestamp old))
                 \<longrightarrow> new = old))
       \<and> (\<forall>p pk sg v key.
             PeerId p = k \<and> k \<noteq> pubSub_GetPeerID env \<and> k = peerID
           \<and> dp_PublicKey p = Some pk \<and> dp_Signature p = Some sg \<and> Version p = Some v
           \<and> pcrypto_UnmarshalEd448PublicKey env pk = Inr key
           \<and> peer_MatchesPublicKey env k key
           \<and> key_Verify env key
                (AppendUint64 (MaxFrame p) @ v @ AppendUint64 (Timestamp p)) sg = (True, None)
           \<and> \<not> (bytes_Compare v (config_GetMinimumVersion env) < 0
                \<and> sint (config_GetMinimumVersionCutoff_UnixMilli env) < sint (Timestamp p))
           \<and> uncooperativePeersMap s k = None \<longrightarrow>
             peerMap (announcePeer env peerID p s) k =
               (if sint (Timestamp p) < sint (timestamp old) then Some old
                else Some \<lparr>peerId = k,
                           multiaddr = pubSub_GetMultiaddrOfPeer env k,
                           maxFrame = MaxFrame p,
                           timestamp = Timestamp p,
                           lastSeen = time_Now_Unix env,
                           version = Some v,
                           signature = Some sg,
                           publicKey = Some pk,
                           direct = True,
                           totalDistance = TotalDistance p\<rparr>))"
proof -
  have "\<exists>new. peerMap (snd (handleDataPeerListAnnounce env peerID address any s)) k = Some new
           \<and> sint (timestamp old) \<le> sint (timestamp new)
           \<and> ((\<forall>p \<in> set (PeerList announce).
                   PeerId p = k \<longrightarrow> sint (Timestamp p) < sint (timestamp old))
                 \<longrightarrow> new = old)"
    using assms(1) fold_announcePeer_entry [OF assms(2), of env peerID "PeerList announce"]
    by (simp add: handleDataPeerListAnnounce_def)
  then show ?thesis
    using announcePeer_replaces_unless_older [OF assms(2)] by blast
qed

theorem peer_entry_replaced_only_by_not_older_witness:
  "(\<exists>new. peerMap (snd (handleDataPeerListAnnounce (announce_of [signed_peer [2] [2, 0, 4] 9 4])
        [2] [] any0 engine1)) [2] = Some new
     \<and> sint (timestamp (info_of (signed_peer [2] [2, 0, 4] 3 5))) \<le> sint (timestamp new)
     \<and> new = info_of (signed_peer [2] [2, 0, 4] 3 5))
   \<and> peerMap (announcePeer (announce_of [signed_peer [2] [2, 0, 4] 9 4]) [2]
        (signed_peer [2] [2, 0, 4] 9 4) engine1) [2]
       = Some (info_of (signed_peer [2] [2, 0, 4] 3 5))
   \<and> map_option (\<lambda>i. (maxFrame i, timestamp i))
        (peerMap (announcePeer (announce_of [signed_peer [2] [2, 0, 4] 9 4]) [2]
           (signed_peer [2] [2, 0, 4] 9 5) engine1) [2]) = Some (9, 5)
   \<and> map_option (\<lambda>i. (maxFrame i, timestamp i))
        (peerMap (announcePeer (announce_of [signed_peer [2] [2, 0, 4] 9 4]) [2]
           (signed_peer [2] [2, 0, 4] 9 6) engine1) [2]) = Some (9, 6)"
proof -
  define env where "env = announce_of [signed_peer [2] [2, 0, 4] 9 4]"
  define old where "old = info_of (signed_peer [2] [2, 0, 4] 3 5)"
  have unm: "any_UnmarshalTo_DataPeerListAnnounce env any0
               = Inr \<lparr>PeerList = [signed_peer [2] [2, 0, 4] 9 4], Peer = None\<rparr>"
    by (simp add: env_def announce_of_def)
  have ent: "peerMap engine1 [2] = Some old"
    by (simp add: engine1_def old_def)
  note inst = peer_entry_replaced_only_by_not_older [OF unm ent, of "[2]" "[]"]
  from inst have whole:
    "\<exists>new. peerMap (snd (handleDataPeerListAnnounce env [2] [] any0 engine1)) [2] = Some new
        \<and> sint (timestamp old) \<le> sint (timestamp new) \<and> new = old"
    by (simp add: signed_peer_def peer_of_def old_def info_of_def)
  note each = inst [THEN conjunct2, rule_format]
  have round:
    "peerMap (announcePeer env [2] (signed_peer [2] [2, 0, 4] 9 t) engine1) [2] =
       (if sint t < sint (timestamp old) then Some old
        else Some \<lparr>peerId = [2],
                   multiaddr = pubSub_GetMultiaddrOfPeer env [2],
                   maxFrame = 9,
                   timestamp = t,
                   lastSeen = time_Now_Unix env,
                   version = Some [2, 0, 4],
                   signature = Some ([2] @ AppendUint64 9 @ [2, 0, 4] @ AppendUint64 t),
                   publicKey = Some [2],
                   direct = True,
                   totalDistance = []\<rparr>)" for t
  proof -
    define p where "p = signed_peer [2] [2, 0, 4] 9 t"
    have checks: "PeerId p = [2] \<and> [2] \<noteq> pubSub_GetPeerID env \<and> [2] = [2]
        \<and> dp_PublicKey p = Some [2]
        \<and> dp_Signature p = Some ([2] @ AppendUint64 9 @ [2, 0, 4] @ AppendUint64 t)
        \<and> Version p = Some [2, 0, 4]
        \<and> pcrypto_UnmarshalEd448PublicKey env [2] = Inr [2]
        \<and> peer_MatchesPublicKey env [2] [2]
        \<and> key_Verify env [2]
             (AppendUint64 (MaxFrame p) @ [2, 0, 4] @ AppendUint64 (Timestamp p))
             ([2] @ AppendUint64 9 @ [2, 0, 4] @ AppendUint64 t) = (True, None)
        \<and> \<not> (bytes_Compare [2, 0, 4] (config_GetMinimumVersion env) < 0
             \<and> sint (config_GetMinimumVersionCutoff_UnixMilli env) < sint (Timestamp p))
        \<and> uncooperativePeersMap engine1 [2] = None"
      by (simp add: p_def signed_peer_def peer_of_def env_def announce_of_def env0_def
          engine1_def engine0_def)
    from each [OF checks] show ?thesis
      by (simp add: p_def signed_peer_def peer_of_def)
  qed
  from whole round [of 4] round [of 5] round [of 6] show ?thesis
    by (simp add: env_def [symmetric] old_def [symmetric])
       (simp add: old_def info_of_def signed_peer_def peer_of_def)
qed

text \<open>
  C6. For a record of the sender about itself whose key, peer id and signature are
  in order and whose version is below the minimum version in the order of
  \<^verbatim>\<open>bytes.Compare\<close>: with a timestamp after the cutoff the only call made is
  \<^verbatim>\<open>SetPeerScore(p.PeerId, -1000000)\<close> and the registry is as it was; with a timestamp
  at or before the cutoff the record goes on to the statements that store it, and
  where the peer is not marked uncooperative and has no entry it gets one.
\<close>

theorem outdated_version_gated_by_cutoff:
  assumes "PeerId p \<noteq> pubSub_GetPeerID env"
      and "PeerId p = peerID"
      and "dp_PublicKey p = Some pk"
      and "dp_Signature p = Some sg"
      and "Version p = Some v"
      and "pcrypto_UnmarshalEd448PublicKey env pk = Inr key"
      and "peer_MatchesPublicKey env (PeerId p) key"
      and "key_Verify env key (AppendUint64 (MaxFrame p) @ v @ AppendUint64 (Timestamp p)) sg
             = (True, None)"
      and "bytes_Compare v (config_GetMinimumVersion env) < 0"
  shows "(sint (config_GetMinimumVersionCutoff_UnixMilli env) < sint (Timestamp p) \<longrightarrow>
            calls (announcePeer env peerID p s)
              = calls s @ [CallSetPeerScore (PeerId p) (- 1000000)]
            \<and> peerMap (announcePeer env peerID p s) = peerMap s)
       \<and> (sint (Timestamp p) \<le> sint (config_GetMinimumVersionCutoff_UnixMilli env) \<longrightarrow>
            announcePeer env peerID p s = storeDataPeer env peerID p s
            \<and> (uncooperativePeersMap s (PeerId p) = None \<and> peerMap s (PeerId p) = None \<longrightarrow>
                 (\<exists>info. peerMap (announcePeer env peerID p s) (PeerId p) = Some info
                    \<and> timestamp info = Timestamp p \<and> version info = Some v
                    \<and> maxFrame info = MaxFrame p)))"
  using assms
  by (auto simp add: announcePeer_def validateDataPeer_def storeDataPeer_def called_def
      logger_def Let_def)

theorem outdated_version_gated_by_cutoff_witness:
  "calls (announcePeer env0 [2] (signed_peer [2] [2, 0, 3] 9 2000) engine0)
     = [CallSetPeerScore [2] (- 1000000)]
   \<and> peerMap (announcePeer env0 [2] (signed_peer [2] [2, 0, 3] 9 2000) engine0) [2] = None
   \<and> (\<exists>info. peerMap (announcePeer env0 [2] (signed_peer [2] [2, 0, 3] 9 500) engine0) [2]
          = Some info \<and> timestamp info = 500 \<and> version info = Some [2, 0, 3])"
  using outdated_version_gated_by_cutoff
    [of "signed_peer [2] [2, 0, 3] 9 2000" env0 "[2]" "[2]"
        "[2] @ AppendUint64 9 @ [2, 0, 3] @ AppendUint64 2000" "[2, 0, 3]" "[2]" engine0]
    outdated_version_gated_by_cutoff
    [of "signed_peer [2] [2, 0, 3] 9 500" env0 "[2]" "[2]"
        "[2] @ AppendUint64 9 @ [2, 0, 3] @ AppendUint64 500" "[2, 0, 3]" "[2]" engine0]
  by (simp add: announcePeer_def validateDataPeer_def storeDataPeer_def called_def logger_def
      env0_def engine0_def signed_peer_def peer_of_def AppendUint64_def)

text \<open>
  C7. For a record whose key parses and whose signature the key does not verify over
  \<^verbatim>\<open>BigEndian(max_frame) || version || BigEndian(uint64(timestamp))\<close>, the round of the
  loop leaves the whole registry as it was and makes no call, so none of
  \<^verbatim>\<open>SetPeerScore\<close>.
\<close>

theorem unverified_announcement_changes_nothing:
  assumes "dp_PublicKey p = Some pk"
      and "dp_Signature p = Some sg"
      and "Version p = Some v"
      and "pcrypto_UnmarshalEd448PublicKey env pk = Inr key"
      and "key_Verify env key (AppendUint64 (MaxFrame p) @ v @ AppendUint64 (Timestamp p)) sg
             \<noteq> (True, None)"
  shows "peerMap (announcePeer env peerID p s) = peerMap s
       \<and> calls (announcePeer env peerID p s) = calls s"
  using assms
  by (auto simp add: announcePeer_def validateDataPeer_def logger_def Let_def
      split: prod.splits)

theorem unverified_announcement_changes_nothing_witness:
  "peerMap (announcePeer env0 [2] (peer_of [2] [2, 0, 4] 9 5 [7, 7]) engine1) = peerMap engine1
   \<and> calls (announcePeer env0 [2] (peer_of [2] [2, 0, 4] 9 5 [7, 7]) engine1) = calls engine1"
  using unverified_announcement_changes_nothing
    [of "peer_of [2] [2, 0, 4] 9 5 [7, 7]" "[2]" "[7, 7]" "[2, 0, 4]" env0 "[2]" "[2]" engine1]
  by (simp add: announcePeer_def validateDataPeer_def logger_def env0_def peer_of_def
      AppendUint64_def)

text \<open>
  C8. A record whose peer id is not that of the sender of the announcement is
  skipped: the round of the loop leaves the state as it was, registry and calls.
\<close>

theorem announcement_about_other_peer_skipped:
  assumes "PeerId p \<noteq> peerID"
  shows "announcePeer env peerID p s = s"
  using assms by (simp add: announcePeer_def)

theorem announcement_about_other_peer_skipped_witness:
  "announcePeer env0 [3] (signed_peer [2] [2, 0, 4] 9 5) engine0 = engine0"
  using announcement_about_other_peer_skipped
    [of "signed_peer [2] [2, 0, 4] 9 5" "[3]" env0 engine0]
  by (simp add: announcePeer_def signed_peer_def peer_of_def)

subsection \<open>Admission of clock frames\<close>

text \<open>
  C4. For a frame whose signer key hashes to an address that the first prover trie
  does not hold, \<^verbatim>\<open>handleClockFrame\<close> returns \<^verbatim>\<open>nil\<close>, writes one debug line and makes
  no call: none of the frame prover and none of the time reel.
\<close>

theorem handleClockFrame_absent_prover_skips:
  assumes "PublicKeySignatureEd448 f = Some sg"
      and "PublicKey sg = Some pk"
      and "poseidon_HashBytes env (KeyValue pk) = Inr addr"
      and "frameProverTries s = trie # rest"
      and "addr \<notin> trie"
  shows "handleClockFrame env peerID address (Some f) s =
           Done (None, logger Debug ''prover not in trie at frame, address may be in fork'' s)
         \<and> calls (logger Debug ''prover not in trie at frame, address may be in fork'' s)
             = calls s"
  using assms by (simp add: handleClockFrame_def logger_def)

theorem handleClockFrame_absent_prover_skips_witness:
  "handleClockFrame env0 [2] [11] (Some (frame_by [11] 6)) engine0 =
     Done (None, logger Debug ''prover not in trie at frame, address may be in fork'' engine0)
   \<and> calls (logger Debug ''prover not in trie at frame, address may be in fork'' engine0) = []"
  using handleClockFrame_absent_prover_skips
    [of "frame_by [11] 6" "\<lparr>PublicKey = Some \<lparr>KeyValue = [11]\<rparr>, Signature = []\<rparr>"
        "\<lparr>KeyValue = [11]\<rparr>" env0 "[11]" engine0 "{[10]}" "[]" "[2]" "[11]"]
  by (simp add: env0_def engine0_def frame_by_def)

text \<open>
  C5. For a frame of a prover in the trie that the frame prover verifies,
  \<^verbatim>\<open>handleClockFrame\<close> returns \<^verbatim>\<open>nil\<close> after the calls of \<^verbatim>\<open>VerifyDataClockFrame\<close> and
  \<^verbatim>\<open>Head\<close>, followed by the call \<^verbatim>\<open>Insert(frame, false)\<close> exactly when the number of
  the frame is greater than that of the head.
\<close>

theorem handleClockFrame_inserts_iff_ahead_of_head:
  assumes "PublicKeySignatureEd448 f = Some sg"
      and "PublicKey sg = Some pk"
      and "poseidon_HashBytes env (KeyValue pk) = Inr addr"
      and "frameProverTries s = trie # rest"
      and "addr \<in> trie"
      and "frameProver_VerifyDataClockFrame env f = None"
      and "dataTimeReel_Head env = Inr head"
  shows "\<exists>s'. handleClockFrame env peerID address (Some f) s = Done (None, s')
           \<and> calls s' = calls s @ [CallVerifyDataClockFrame f, CallHead]
                 @ (if FrameNumber head < FrameNumber f then [CallInsert f False] else [])"
  using assms by (simp add: handleClockFrame_def logger_def called_def)

theorem handleClockFrame_inserts_iff_ahead_of_head_witness:
  "(\<exists>s'. handleClockFrame env0 [2] [10] (Some (frame_by [10] 6)) engine0 = Done (None, s')
        \<and> calls s' = [CallVerifyDataClockFrame (frame_by [10] 6), CallHead,
                      CallInsert (frame_by [10] 6) False])
   \<and> (\<exists>s'. handleClockFrame env0 [2] [10] (Some (frame_by [10] 5)) engine0 = Done (None, s')
        \<and> calls s' = [CallVerifyDataClockFrame (frame_by [10] 5), CallHead])"
  using handleClockFrame_inserts_iff_ahead_of_head
    [of "frame_by [10] 6" "\<lparr>PublicKey = Some \<lparr>KeyValue = [10]\<rparr>, Signature = []\<rparr>"
        "\<lparr>KeyValue = [10]\<rparr>" env0 "[10]" engine0 "{[10]}" "[]"
        "\<lparr>Filter = [], FrameNumber = 5, AggregateProofs = [], PublicKeySignatureEd448 = None\<rparr>"
        "[2]" "[10]"]
    handleClockFrame_inserts_iff_ahead_of_head
    [of "frame_by [10] 5" "\<lparr>PublicKey = Some \<lparr>KeyValue = [10]\<rparr>, Signature = []\<rparr>"
        "\<lparr>KeyValue = [10]\<rparr>" env0 "[10]" engine0 "{[10]}" "[]"
        "\<lparr>Filter = [], FrameNumber = 5, AggregateProofs = [], PublicKeySignatureEd448 = None\<rparr>"
        "[2]" "[10]"]
  by (simp add: env0_def engine0_def frame_by_def)

subsection \<open>Nonces of published token requests\<close>






text \<open>
  The same for every hash with fewer values than there are nonces of 32 bytes, as
  Poseidon is, whose values are the elements of a field of fewer than \<open>2 ^ 254\<close>
  elements: two nonces that differ give envelopes with the same hash.
\<close>

lemma bounded_function_collides:
  fixes g :: "bytes \<Rightarrow> 'b"
  assumes "finite H" and "card H < 256 ^ 32" and "\<forall>n. length n = 32 \<longrightarrow> g n \<in> H"
  shows "\<exists>n1 n2. length n1 = 32 \<and> length n2 = 32 \<and> n1 \<noteq> n2 \<and> g n1 = g n2"
proof -
  define A :: "bytes set" where "A = {n. set n \<subseteq> UNIV \<and> length n = 32}"
  have fin: "finite A"
    unfolding A_def by (rule finite_lists_length_eq) simp
  have "card A = card (UNIV :: byte set) ^ 32"
    unfolding A_def by (rule card_lists_length_eq) simp
  then have cardA: "card A = 256 ^ 32"
    by (simp add: card_word)
  have "g ` A \<subseteq> H"
    using assms(3) by (auto simp add: A_def)
  then have "card (g ` A) \<le> card H"
    using assms(1) by (rule card_mono [rotated])
  with assms(2) cardA have "card (g ` A) < card A"
    by simp
  then have "\<not> inj_on g A"
    by (rule pigeonhole)
  then show ?thesis
    by (auto simp add: inj_on_def A_def)
qed

lemma bounded_hash_collides_on_two_nonces:
  assumes "finite H" and "card H < 256 ^ 32"
      and "\<forall>n. length n = 32 \<longrightarrow>
             (\<exists>e. wrapMessage env (s\<lparr>heap := [t\<lparr>Nonce := Some n\<rparr>]\<rparr>) (TokenRequestPtr 0) = Inr e
                 \<and> Hash e \<in> H)"
  shows "\<exists>n1 n2 e1 e2. length n1 = 32 \<and> length n2 = 32 \<and> n1 \<noteq> n2
           \<and> wrapMessage env (s\<lparr>heap := [t\<lparr>Nonce := Some n1\<rparr>]\<rparr>) (TokenRequestPtr 0) = Inr e1
           \<and> wrapMessage env (s\<lparr>heap := [t\<lparr>Nonce := Some n2\<rparr>]\<rparr>) (TokenRequestPtr 0) = Inr e2
           \<and> Hash e1 = Hash e2"
proof -
  define g where
    "g n = Hash (projr (wrapMessage env (s\<lparr>heap := [t\<lparr>Nonce := Some n\<rparr>]\<rparr>) (TokenRequestPtr 0)))"
    for n
  have "\<forall>n. length n = 32 \<longrightarrow> g n \<in> H"
    using assms(3) by (auto simp add: g_def)
  from bounded_function_collides [OF assms(1,2) this]
  obtain n1 n2 where n: "length n1 = 32" "length n2 = 32" "n1 \<noteq> n2" "g n1 = g n2"
    by blast
  from assms(3) n(1,2) obtain e1 e2 where
    e: "wrapMessage env (s\<lparr>heap := [t\<lparr>Nonce := Some n1\<rparr>]\<rparr>) (TokenRequestPtr 0) = Inr e1"
       "wrapMessage env (s\<lparr>heap := [t\<lparr>Nonce := Some n2\<rparr>]\<rparr>) (TokenRequestPtr 0) = Inr e2"
    by blast
  with n(4) have "Hash e1 = Hash e2"
    by (simp add: g_def)
  with n e show ?thesis by blast
qed



subsection \<open>The gate of the tx worker\<close>










end
